theory Spec2Isabelle
  imports Main "HOL-Library.Sublist"
begin

section \<open>JavaScript strings\<close>

text \<open>
  Source strings are modelled as \<^typ>\<open>string\<close>: one \<^typ>\<open>char\<close> per code unit, which
  covers the code units below 256. A value that may be \<open>null\<close> or \<open>undefined\<close> is a
  \<^typ>\<open>string option\<close> with \<^const>\<open>None\<close> for the missing value.
\<close>

definition truthy :: "string \<Rightarrow> bool" where
  \<comment> \<open>a string is falsy exactly when it is empty\<close>
  "truthy s \<longleftrightarrow> s \<noteq> []"

definition truthy_opt :: "string option \<Rightarrow> bool" where
  \<comment> \<open>\<open>null\<close> and \<open>undefined\<close> are falsy\<close>
  "truthy_opt v = (case v of None \<Rightarrow> False | Some s \<Rightarrow> truthy s)"

fun split_on :: "char \<Rightarrow> string \<Rightarrow> string list" where
  \<comment> \<open>\<open>s.split(d)\<close> for a one-character separator: \<open>''.split(' ')\<close> is \<open>['']\<close>\<close>
  "split_on d [] = [[]]"
| "split_on d (c # cs) =
     (if c = d then [] # split_on d cs
      else (case split_on d cs of [] \<Rightarrow> [[c]] | t # ts \<Rightarrow> (c # t) # ts))"

fun join_with :: "string \<Rightarrow> string list \<Rightarrow> string" where
  \<comment> \<open>\<open>xs.join(sep)\<close>\<close>
  "join_with sep [] = []"
| "join_with sep [x] = x"
| "join_with sep (x # y # zs) = x @ sep @ join_with sep (y # zs)"

definition slice_last :: "nat \<Rightarrow> string \<Rightarrow> string" where
  \<comment> \<open>\<open>s.slice(-n)\<close>: the last \<open>n\<close> code units, the whole string when it is shorter\<close>
  "slice_last n s = drop (length s - n) s"

definition is_upper :: "char \<Rightarrow> bool" where
  "is_upper c \<longleftrightarrow> 65 \<le> (of_char c :: nat) \<and> (of_char c :: nat) \<le> 90"

definition is_lower :: "char \<Rightarrow> bool" where
  \<comment> \<open>the class \<open>[a-z]\<close>\<close>
  "is_lower c \<longleftrightarrow> 97 \<le> (of_char c :: nat) \<and> (of_char c :: nat) \<le> 122"

definition to_lower :: "char \<Rightarrow> char" where
  \<comment> \<open>\<open>toLowerCase\<close> on one code unit: \<open>A-Z\<close> go to \<open>a-z\<close>, which sets the bit of value 32
      (clear in all of \<open>A-Z\<close>). The other code units below 256
      either stay or move inside the range above 127, so none of them reaches \<open>[a-z]\<close>;
      they are left in place here because the only caller strips them next.\<close>
  "to_lower c =
     (if is_upper c
      then (case c of Char b0 b1 b2 b3 b4 b5 b6 b7 \<Rightarrow> Char b0 b1 b2 b3 b4 True b6 b7)
      else c)"

definition is_space :: "char \<Rightarrow> bool" where
  \<comment> \<open>the white space and line terminators that \<open>trim\<close> removes, among the code units below 256\<close>
  "is_space c \<longleftrightarrow> (of_char c :: nat) \<in> {9, 10, 11, 12, 13, 32, 160}"

definition trim :: "string \<Rightarrow> string" where
  "trim s = rev (dropWhile is_space (rev (dropWhile is_space s)))"

definition digit_char :: "nat \<Rightarrow> char" where
  \<comment> \<open>the digits of \<open>Number.prototype.toString(radix)\<close>, for a digit value below 36\<close>
  "digit_char d = ''0123456789abcdefghijklmnopqrstuvwxyz'' ! d"

function to_radix :: "nat \<Rightarrow> nat \<Rightarrow> string" where
  \<comment> \<open>\<open>n.toString(r)\<close> for a non-negative integer \<open>n\<close> and a radix from 2 to 36 (the callers
      use 10 and 36)\<close>
  "to_radix r n =
     (if r < 2 \<or> n < r then [digit_char n]
      else to_radix r (n div r) @ [digit_char (n mod r)])"
  by pat_completeness auto
termination
  by (relation "measure (\<lambda>(r, n). n)") auto

definition pad :: "nat \<Rightarrow> nat \<Rightarrow> string" where
  \<comment> \<open>decimal digits, padded with zeros on the left to the given width\<close>
  "pad w n = replicate (w - length (to_radix 10 n)) (CHR ''0'') @ to_radix 10 n"

section \<open>Dates\<close>

text \<open>
  A \<open>Date\<close> object is its time value: \<open>Some t\<close> for \<open>t\<close> milliseconds since the epoch,
  \<open>None\<close> for an invalid date. \<open>Date.parse\<close> depends on the engine and is a parameter of the
  model; \<open>toISOString\<close> follows ECMA-262 (proleptic Gregorian calendar, UTC).
\<close>

datatype error = NavigationError | NoElement | TypeError | RangeError | QueryError

definition year_string :: "int \<Rightarrow> string" where
  \<comment> \<open>four digits for the years 0 to 9999, a sign and six digits otherwise\<close>
  "year_string y =
     (if 0 \<le> y \<and> y \<le> 9999 then pad 4 (nat y)
      else (if y < 0 then ''-'' else ''+'') @ pad 6 (nat \<bar>y\<bar>))"

definition iso_of_time :: "int \<Rightarrow> string" where
  \<comment> \<open>\<open>YYYY-MM-DDTHH:mm:ss.sssZ\<close> of a time value\<close>
  "iso_of_time t =
     (let ms = t mod 86400000;
          z = t div 86400000 + 719468;
          era = z div 146097;
          doe = z mod 146097;
          yoe = (doe - doe div 1460 + doe div 36524 - doe div 146096) div 365;
          doy = doe - (365 * yoe + yoe div 4 - yoe div 100);
          mp = (5 * doy + 2) div 153;
          d = doy - (153 * mp + 2) div 5 + 1;
          m = (if mp < 10 then mp + 3 else mp - 9);
          y = yoe + era * 400 + (if m \<le> 2 then 1 else 0)
      in year_string y @ ''-'' @ pad 2 (nat m) @ ''-'' @ pad 2 (nat d) @ ''T''
           @ pad 2 (nat (ms div 3600000)) @ '':'' @ pad 2 (nat (ms div 60000 mod 60)) @ '':''
           @ pad 2 (nat (ms div 1000 mod 60)) @ ''.'' @ pad 3 (nat (ms mod 1000)) @ ''Z'')"

definition toISOString :: "int option \<Rightarrow> error + string" where
  \<comment> \<open>\<open>date.toISOString()\<close>: a \<open>RangeError\<close> on an invalid date\<close>
  "toISOString date = (case date of None \<Rightarrow> Inl RangeError | Some t \<Rightarrow> Inr (iso_of_time t))"

definition new_Date :: "(string \<Rightarrow> int option) \<Rightarrow> string option \<Rightarrow> int option" where
  \<comment> \<open>\<open>new Date(value)\<close>: \<open>null\<close> converts to the number 0, a string is parsed\<close>
  "new_Date Date_parse rawDate = (case rawDate of None \<Rightarrow> Some 0 | Some s \<Rightarrow> Date_parse s)"

section \<open>Body wrapping\<close>

definition apostrophe :: char where
  "apostrophe = CHR 0x27"

definition BBC_News :: string where
  \<comment> \<open>the default of the \<open>resource\<close> parameter and the resource tag of every record\<close>
  "BBC_News = ''BBC News''"

definition visit_block :: "string \<Rightarrow> string \<Rightarrow> string" where
  \<comment> \<open>the template \<open><br><br><ul><li><a href='${link}'>Visit ${resource}</a></li></ul>\<close>\<close>
  "visit_block link resource =
     ''<br><br><ul><li><a href='' @ [apostrophe] @ link @ [apostrophe] @ ''>Visit '' @ resource
       @ ''</a></li></ul>''"

definition processBody :: "string option \<Rightarrow> string \<Rightarrow> string \<Rightarrow> string" where
  \<comment> \<open>\<open>processBody\<close> of \<open>src/app/index.js\<close>; \<open>body\<close> is \<open>None\<close> for \<open>null\<close>\<close>
  "processBody body link resource =
     (let formattedBody =
            (case body of
               None \<Rightarrow> []
             | Some b \<Rightarrow> ''<p>'' @ b @ ''</p>'' @ visit_block link resource)
      in if truthy link \<and> \<not> truthy_opt body then formattedBody @ visit_block link resource
         else if \<not> truthy link \<and> \<not> truthy_opt body then []
         else formattedBody)"

definition processBody_alt :: "string list \<Rightarrow> string \<Rightarrow> string \<Rightarrow> string" where
  \<comment> \<open>\<open>processBody\<close> of \<open>src/unnamed/part_000\<close>, over the list of paragraph texts\<close>
  "processBody_alt paragraphs link resource =
     join_with [] (map (\<lambda>p. ''<p>'' @ p @ ''</p>'') paragraphs) @ visit_block link resource"

section \<open>Slugs\<close>

definition baseSlug :: "string \<Rightarrow> string" where
  \<comment> \<open>\<open>headline.split(' ').slice(0, 3).join('').toLowerCase().replace(/[^a-z]/g, '')\<close>\<close>
  "baseSlug headline =
     filter is_lower (map to_lower (join_with [] (take 3 (split_on (CHR '' '') headline))))"

definition uniquePart :: "nat \<Rightarrow> string \<Rightarrow> string" where
  \<comment> \<open>\<open>Date.now().toString(36).slice(-5) + Math.random().toString(36).slice(-5)\<close>; \<open>now\<close> is
      the clock reading and \<open>random36\<close> the base-36 rendering of the random draw\<close>
  "uniquePart now random36 = slice_last 5 (to_radix 36 now) @ slice_last 5 random36"

definition generateSlug :: "string \<Rightarrow> string \<Rightarrow> nat \<Rightarrow> string \<Rightarrow> string" where
  \<comment> \<open>\<open>generateSlug\<close> of \<open>src/unnamed/part_000\<close>, with the clock and the random draw it reads\<close>
  "generateSlug headline link now random36 = baseSlug headline @ ''-'' @ uniquePart now random36"

section \<open>Summaries\<close>

definition first_words :: "string \<Rightarrow> string" where
  \<comment> \<open>\<open>text.split(' ').slice(0, 25).join(' ') + '...'\<close>\<close>
  "first_words text = join_with '' '' (take 25 (split_on (CHR '' '') text)) @ ''...''"

definition summary_index :: "string \<Rightarrow> string" where
  \<comment> \<open>\<open>src/app/index.js\<close>: the summary of the extracted body\<close>
  "summary_index body = (if truthy body then first_words body else [])"

definition summary_alt :: "string list \<Rightarrow> string" where
  \<comment> \<open>\<open>src/unnamed/part_000\<close>: the summary of the extracted paragraphs\<close>
  "summary_alt paragraphs = first_words (join_with '' '' paragraphs)"

text \<open>
  The summary in the words of the specification: the first 25 tokens delimited by white space,
  joined with spaces, followed by the ellipsis; empty for an empty body.
\<close>

fun ws_tokens :: "string \<Rightarrow> string list" where
  "ws_tokens [] = []"
| "ws_tokens (c # cs) =
     (if is_space c then ws_tokens cs
      else (case cs of
              [] \<Rightarrow> [[c]]
            | c' # _ \<Rightarrow>
                if is_space c' then [c] # ws_tokens cs
                else (case ws_tokens cs of [] \<Rightarrow> [[c]] | t # ts \<Rightarrow> (c # t) # ts)))"

definition spec_summary :: "string \<Rightarrow> string" where
  "spec_summary body =
     (if body = [] then [] else join_with '' '' (take 25 (ws_tokens body)) @ ''...'')"

section \<open>The article page\<close>

text \<open>
  One visit is everything an attempt observes outside the program: whether the navigation
  succeeds, what each locator evaluates to on the loaded page (\<open>None\<close> when \<open>$eval\<close> finds no
  element and throws), the identifier that \<open>cuid()\<close> returns, the clock, and whether the
  \<open>INSERT\<close> statement succeeds.
\<close>

record video_el =
  poster :: "string option"    \<comment> \<open>\<open>video.getAttribute('poster')\<close>\<close>
  thumb :: "string option"     \<comment> \<open>\<open>video.querySelector('img')?.src\<close>\<close>

datatype time_query =
    NoTimeElement                   \<comment> \<open>no \<open>time\<close> element\<close>
  | TimeElement "string option"     \<comment> \<open>its \<open>datetime\<close> attribute, \<open>None\<close> for \<open>null\<close>\<close>

record visit =
  goto_ok :: bool
  article_text :: "string option"        \<comment> \<open>\<open>$eval('article', ...)\<close>, cleaned and trimmed\<close>
  text_blocks :: "string list option"    \<comment> \<open>\<open>$$eval('div[data-component="text-block"] p', ...)\<close>\<close>
  byline :: "string option"              \<comment> \<open>\<open>$eval\<close> of the author locator\<close>
  img_src :: "string option"             \<comment> \<open>\<open>$eval('img', img => img.src)\<close>\<close>
  holding_src :: "string option"         \<comment> \<open>\<open>$eval('img.p_holding_image', img => img.src)\<close>\<close>
  video :: "video_el option"             \<comment> \<open>\<open>$eval('video', ...)\<close>\<close>
  time_el :: time_query                  \<comment> \<open>\<open>$eval('time', el => el.getAttribute('datetime'))\<close>\<close>
  cuid :: string
  clock :: int                           \<comment> \<open>the time value of \<open>new Date()\<close>\<close>
  insert_ok :: bool

definition page_eval :: "'a option \<Rightarrow> error + 'a" where
  \<comment> \<open>\<open>page.$eval\<close> throws when no element matches\<close>
  "page_eval q = (case q of None \<Rightarrow> Inl NoElement | Some x \<Rightarrow> Inr x)"

definition catch :: "error + 'a \<Rightarrow> 'a \<Rightarrow> 'a" where
  \<comment> \<open>\<open>try { x = e } catch (err) { x = d }\<close>\<close>
  "catch r d = (case r of Inl _ \<Rightarrow> d | Inr x \<Rightarrow> x)"

definition default_image :: string where
  "default_image = ''https://news.bbc.co.uk/nol/shared/img/bbc_news_120x60.gif''"

definition extractMainImage :: "visit \<Rightarrow> string" where
  \<comment> \<open>the same function in both files\<close>
  "extractMainImage page = catch (page_eval (img_src page)) default_image"

definition extractMedia :: "visit \<Rightarrow> string" where
  \<comment> \<open>\<open>src/unnamed/part_000\<close>; every \<open>$eval\<close> is inside the one \<open>try\<close>\<close>
  "extractMedia page =
     (case page_eval (holding_src page) of
        Inl _ \<Rightarrow> default_image
      | Inr mediaUrl \<Rightarrow>
          if \<not> truthy mediaUrl then
            (case page_eval (video page) of
               Inl _ \<Rightarrow> default_image
             | Inr v \<Rightarrow>
                 (case (if truthy_opt (poster v) then poster v else thumb v) of
                    None \<Rightarrow> default_image
                  | Some mediaUrl2 \<Rightarrow> if \<not> truthy mediaUrl2 then default_image else mediaUrl2))
          else mediaUrl)"

section \<open>Articles and rows\<close>

record article =
  art_headline :: string
  art_link :: string
  art_slug :: string
  art_body :: "string option"
  art_summary :: "string option"
  art_author :: "string option"
  art_media :: "string option"
  art_date :: "string option"
  art_resource :: "string option"
  art_id :: "string option"

definition new_article :: "string \<Rightarrow> string \<Rightarrow> string \<Rightarrow> article" where
  \<comment> \<open>the object \<open>{ headline, link, slug }\<close>: the other properties are absent\<close>
  "new_article headline link slug =
     \<lparr>art_headline = headline, art_link = link, art_slug = slug, art_body = None,
      art_summary = None, art_author = None, art_media = None, art_date = None,
      art_resource = None, art_id = None\<rparr>"

record row =
  col_id :: "string option"
  col_slug :: "string option"
  col_headline :: "string option"
  col_summary :: "string option"
  col_body :: "string option"
  col_author :: "string option"
  col_resource :: "string option"
  col_media :: "string option"
  col_link :: "string option"
  col_date :: "string option"

definition or_empty :: "string option \<Rightarrow> string option" where
  \<comment> \<open>\<open>value || ''\<close>\<close>
  "or_empty v = (if truthy_opt v then v else Some [])"

definition insert_params :: "article \<Rightarrow> row" where
  \<comment> \<open>the parameters of the \<open>INSERT\<close> statement; an absent property is sent as \<open>NULL\<close>\<close>
  "insert_params a =
     \<lparr>col_id = art_id a, col_slug = Some (art_slug a), col_headline = Some (art_headline a),
      col_summary = or_empty (art_summary a), col_body = or_empty (art_body a),
      col_author = art_author a, col_resource = art_resource a, col_media = art_media a,
      col_link = Some (art_link a), col_date = art_date a\<rparr>"

definition complete :: "row \<Rightarrow> bool" where
  \<comment> \<open>no column of the row is \<open>NULL\<close>\<close>
  "complete r \<longleftrightarrow>
     col_id r \<noteq> None \<and> col_slug r \<noteq> None \<and> col_headline r \<noteq> None \<and> col_summary r \<noteq> None
     \<and> col_body r \<noteq> None \<and> col_author r \<noteq> None \<and> col_resource r \<noteq> None
     \<and> col_media r \<noteq> None \<and> col_link r \<noteq> None \<and> col_date r \<noteq> None"

section \<open>Field extraction\<close>

definition extract_date :: "(string \<Rightarrow> int option) \<Rightarrow> time_query \<Rightarrow> string" where
  \<comment> \<open>\<open>src/app/index.js\<close>: the \<open>try\<close> block around \<open>$eval('time', ...)\<close>, \<open>new Date\<close> and
      \<open>toISOString\<close>, with its \<open>catch\<close>\<close>
  "extract_date Date_parse q =
     (case q of
        NoTimeElement \<Rightarrow> []
      | TimeElement rawDate \<Rightarrow> catch (toISOString (new_Date Date_parse rawDate)) [])"

definition assemble_index :: "(string \<Rightarrow> int option) \<Rightarrow> article \<Rightarrow> visit \<Rightarrow> article" where
  \<comment> \<open>\<open>src/app/index.js\<close>: the statements between the navigation and the \<open>INSERT\<close>\<close>
  "assemble_index Date_parse a page =
     (let body0 = catch (page_eval (article_text page)) [];
          summary = summary_index body0;
          body = processBody (Some body0) (art_link a) BBC_News;
          author = catch (page_eval (byline page)) ''See article for details'';
          media = extractMainImage page;
          date = extract_date Date_parse (time_el page)
      in a\<lparr>art_body := Some body, art_summary := Some summary, art_author := Some author,
           art_media := Some media, art_date := Some date, art_resource := Some BBC_News,
           art_id := Some (cuid page)\<rparr>)"

definition assemble_alt :: "article \<Rightarrow> visit \<Rightarrow> article" where
  \<comment> \<open>\<open>src/unnamed/part_000\<close>: the statements between the navigation and the \<open>INSERT\<close>\<close>
  "assemble_alt a page =
     (let (body, summary) =
            (case text_blocks page of
               None \<Rightarrow> ([], [])
             | Some paragraphs \<Rightarrow>
                 (processBody_alt paragraphs (art_link a) BBC_News, summary_alt paragraphs));
          author = catch (page_eval (byline page)) ''See article for deatails'';
          media = extractMainImage page
      in a\<lparr>art_body := Some body, art_summary := Some summary, art_author := Some author,
           art_media := Some media, art_resource := Some BBC_News, art_id := Some (cuid page),
           art_date := Some (iso_of_time (clock page))\<rparr>)"

section \<open>The retry loop\<close>

definition attempt ::
  "(article \<Rightarrow> visit \<Rightarrow> article) \<Rightarrow> article \<Rightarrow> visit \<Rightarrow> row list
     \<Rightarrow> (error + unit) \<times> article \<times> row list" where
  \<comment> \<open>the body of the outer \<open>try\<close>: navigation, extraction, \<open>INSERT\<close>. The result says whether
      it threw, and gives the article object and the table as the attempt leaves them.\<close>
  "attempt assemble a page db =
     (if \<not> goto_ok page then (Inl NavigationError, a, db)
      else let a' = assemble a page
           in if \<not> insert_ok page then (Inl QueryError, a', db)
              else (Inr (), a', db @ [insert_params a']))"

definition attempt_ok :: "visit \<Rightarrow> bool" where
  \<comment> \<open>the attempt reaches \<open>success = true\<close>: neither \<open>page.goto\<close> nor \<open>client.query\<close> throws\<close>
  "attempt_ok page \<longleftrightarrow> goto_ok page \<and> insert_ok page"

definition after_failure :: "(article \<Rightarrow> visit \<Rightarrow> article) \<Rightarrow> article \<Rightarrow> visit \<Rightarrow> article" where
  \<comment> \<open>the article object after an attempt that threw: the extracted fields stay on it when
      the navigation had succeeded\<close>
  "after_failure assemble a page = (if goto_ok page then assemble a page else a)"

definition maxAttempts :: nat where
  "maxAttempts = 3"

function retry_loop ::
  "(article \<Rightarrow> visit \<Rightarrow> article) \<Rightarrow> (nat \<Rightarrow> visit) \<Rightarrow> article \<Rightarrow> nat \<Rightarrow> bool \<Rightarrow> row list
     \<Rightarrow> article \<times> nat \<times> bool \<times> row list" where
  \<comment> \<open>\<open>while (!success && attempts < maxAttempts)\<close>; \<open>pages k\<close> is what attempt \<open>k\<close> observes\<close>
  "retry_loop assemble pages a attempts success db =
     (if \<not> success \<and> attempts < maxAttempts then
        (case attempt assemble a (pages (attempts + 1)) db of
           (Inr _, a', db') \<Rightarrow> retry_loop assemble pages a' (attempts + 1) True db'
         | (Inl _, a', db') \<Rightarrow> retry_loop assemble pages a' (attempts + 1) False db')
      else (a, attempts, success, db))"
  by pat_completeness auto
termination
  by (relation "measure (\<lambda>(assemble, pages, a, attempts, success, db).
        if success then 0 else Suc (maxAttempts - attempts))") auto

fun ingest_all ::
  "(article \<Rightarrow> visit \<Rightarrow> article) \<Rightarrow> (nat \<Rightarrow> nat \<Rightarrow> visit) \<Rightarrow> nat \<Rightarrow> article list \<Rightarrow> row list
     \<Rightarrow> article list \<times> row list" where
  \<comment> \<open>\<open>for (const article of articles)\<close>; \<open>i\<close> is the position of the next article and
      \<open>pages i k\<close> what its attempt \<open>k\<close> observes\<close>
  "ingest_all assemble pages i [] db = ([], db)"
| "ingest_all assemble pages i (a # rest) db =
     (case retry_loop assemble (pages i) a 0 False db of
        (a', attempts, success, db') \<Rightarrow>
          (case ingest_all assemble pages (Suc i) rest db' of
             (done, db'') \<Rightarrow> (a' # done, db'')))"

section \<open>The listing page\<close>

record raw_item =
  headline_text :: "string option"   \<comment> \<open>\<open>innerText\<close> of the card headline, \<open>None\<close> without one\<close>
  href :: "string option"            \<comment> \<open>\<open>item.getAttribute('href')\<close>\<close>

definition site :: string where
  "site = ''https://www.bbc.com''"

definition item_index :: "raw_item \<Rightarrow> error + article" where
  \<comment> \<open>\<open>src/app/index.js\<close>: \<open>.trim()\<close> on a \<open>null\<close> href and \<open>.split\<close> on an undefined headline throw\<close>
  "item_index item =
     (case href item of
        None \<Rightarrow> Inl TypeError
      | Some h \<Rightarrow>
          (case headline_text item of
             None \<Rightarrow> Inl TypeError
           | Some t \<Rightarrow>
               let headline = trim t; link = site @ trim h
               in Inr (new_article headline link (baseSlug headline))))"

fun collect_index :: "raw_item list \<Rightarrow> error + article list" where
  \<comment> \<open>\<open>items.map(...)\<close>, ended by the first exception\<close>
  "collect_index [] = Inr []"
| "collect_index (item # items) =
     (case item_index item of
        Inl e \<Rightarrow> Inl e
      | Inr a \<Rightarrow> (case collect_index items of Inl e \<Rightarrow> Inl e | Inr as \<Rightarrow> Inr (a # as)))"




section \<open>The job\<close>

record env =
  connect_ok :: bool                         \<comment> \<open>\<open>client.connect()\<close>\<close>
  sweep_ok :: bool                           \<comment> \<open>the \<open>DELETE\<close> statement\<close>
  launch_ok :: bool                          \<comment> \<open>\<open>chromium.launch\<close> and \<open>newPage\<close>\<close>
  home_ok :: bool                            \<comment> \<open>the inner \<open>try\<close> around the listing page\<close>
  listing :: "raw_item list option"          \<comment> \<open>\<open>$$eval\<close> on the listing page, \<open>None\<close> when it throws\<close>
  slug_now :: "nat \<Rightarrow> nat"
  slug_random36 :: "nat \<Rightarrow> string"
  pages :: "nat \<Rightarrow> nat \<Rightarrow> visit"
  Date_parse :: "string \<Rightarrow> int option"

definition sweep :: "row list \<Rightarrow> row list" where
  \<comment> \<open>\<open>DELETE FROM "Article" WHERE resource = 'BBC News'\<close>\<close>
  "sweep db = filter (\<lambda>r. col_resource r \<noteq> Some BBC_News) db"

definition job_index :: "env \<Rightarrow> row list \<Rightarrow> row list \<times> article list option" where
  \<comment> \<open>\<open>src/app/index.js\<close>: the table after the job, and the snapshot when it is written\<close>
  "job_index e db =
     (if \<not> connect_ok e then (db, None)
      else if \<not> sweep_ok e then (db, None)
      else let db1 = sweep db
           in if \<not> launch_ok e then (db1, None)
              else if \<not> home_ok e then (db1, None)
              else (case listing e of
                      None \<Rightarrow> (db1, None)
                    | Some items \<Rightarrow>
                        (case collect_index items of
                           Inl _ \<Rightarrow> (db1, None)
                         | Inr articles \<Rightarrow>
                             (case ingest_all (assemble_index (Date_parse e)) (pages e) 0 articles db1 of
                                (done, db2) \<Rightarrow> (db2, Some done)))))"


section \<open>Sample inputs\<close>

text \<open>Concrete pages, entries and runs, used to instantiate the theorems below.\<close>

definition sample_parse :: "string \<Rightarrow> int option" where
  \<comment> \<open>a parser that knows one date string\<close>
  "sample_parse s = (if s = ''2023-11-14T22:13:20.000Z'' then Some 1700000000000 else None)"

definition sample_article :: article where
  "sample_article = new_article ''A B C D'' ''https://www.bbc.com/x'' ''abc''"

definition page_full :: visit where
  \<comment> \<open>a page on which every locator matches\<close>
  "page_full =
     \<lparr>goto_ok = True, article_text = Some ''Hello world'',
      text_blocks = Some [''Hello'', ''world''], byline = Some ''Jane Doe'',
      img_src = Some ''https://www.bbc.com/i.jpg'', holding_src = None, video = None,
      time_el = TimeElement (Some ''2023-11-14T22:13:20.000Z''), cuid = ''c1'',
      clock = 1700000000000, insert_ok = True\<rparr>"

definition page_bare :: visit where
  \<comment> \<open>a page that loads, on which no locator matches and \<open>$$eval\<close> throws\<close>
  "page_bare =
     \<lparr>goto_ok = True, article_text = None, text_blocks = None, byline = None,
      img_src = None, holding_src = None, video = None, time_el = NoTimeElement,
      cuid = ''c2'', clock = 1700000000000, insert_ok = True\<rparr>"

definition page_video :: visit where
  \<comment> \<open>a page without any \<open>img\<close> element, with a \<open>video\<close> element that has a poster\<close>
  "page_video =
     \<lparr>goto_ok = True, article_text = Some ''Hello world'', text_blocks = Some [''Hello'', ''world''],
      byline = None, img_src = None, holding_src = None,
      video = Some \<lparr>poster = Some ''https://www.bbc.com/poster.jpg'', thumb = None\<rparr>,
      time_el = NoTimeElement, cuid = ''c3'', clock = 1700000000000, insert_ok = True\<rparr>"

definition page_down :: visit where
  \<comment> \<open>the navigation times out\<close>
  "page_down = page_full\<lparr>goto_ok := False\<rparr>"

definition page_insert_fails :: visit where
  \<comment> \<open>the page loads and every locator matches, the \<open>INSERT\<close> statement fails\<close>
  "page_insert_fails = page_full\<lparr>insert_ok := False\<rparr>"

definition pages_retry :: "nat \<Rightarrow> visit" where
  \<comment> \<open>the first attempt fails at the \<open>INSERT\<close>, the later ones succeed\<close>
  "pages_retry k = (if k = 1 then page_insert_fails else page_full)"

definition pages_first_down :: "nat \<Rightarrow> nat \<Rightarrow> visit" where
  \<comment> \<open>the entry at position 0 never loads, the others load at once\<close>
  "pages_first_down i k = (if i = 0 then page_down else page_full)"

definition sample_items :: "raw_item list" where
  \<comment> \<open>two cards with the same headline\<close>
  "sample_items =
     [\<lparr>headline_text = Some ''A B C D'', href = Some ''/x''\<rparr>,
      \<lparr>headline_text = Some ''A B C D'', href = Some ''/y''\<rparr>]"

definition sample_env :: env where
  "sample_env =
     \<lparr>connect_ok = True, sweep_ok = True, launch_ok = True, home_ok = True,
      listing = Some sample_items, slug_now = (\<lambda>i. 1700000000000),
      slug_random36 = (\<lambda>i. ''0.i''), pages = pages_first_down, Date_parse = sample_parse\<rparr>"


section \<open>Strings: properties\<close>

lemma to_lower_upper: "is_upper c \<Longrightarrow> of_char (to_lower c) = (of_char c :: nat) + 32"
  by (cases c) (auto simp add: to_lower_def is_upper_def of_char_def of_bool_def split: if_splits)

lemma split_on_not_Nil: "split_on d s \<noteq> []"
  by (induction s) (auto split: list.splits)

lemma join_with_push: "join_with sep ((c # t) # ts) = c # join_with sep (t # ts)"
  by (cases ts) simp_all

lemma join_with_Cons: "ts \<noteq> [] \<Longrightarrow> join_with sep (t # ts) = t @ sep @ join_with sep ts"
  by (cases ts) simp_all

text \<open>
  Joining the first \<open>m + 1\<close> pieces of a split gives back a prefix of the string: the part
  before separator number \<open>m + 1\<close>, or the whole string when it has fewer separators.
\<close>

lemma take_split_prefix:
  "\<exists>rest. s = join_with [d] (take (Suc m) (split_on d s)) @ rest
      \<and> count_list (join_with [d] (take (Suc m) (split_on d s))) d \<le> m
      \<and> (rest = [] \<or> (hd rest = d \<and> count_list (join_with [d] (take (Suc m) (split_on d s))) d = m))"
proof (induction s arbitrary: m)
  case Nil
  show ?case by simp
next
  case (Cons c cs)
  show ?case
  proof (cases "c = d")
    case True
    show ?thesis
    proof (cases m)
      case 0
      with True show ?thesis by simp
    next
      case (Suc k)
      from Cons.IH [of k] obtain rest where
        r: "cs = join_with [d] (take (Suc k) (split_on d cs)) @ rest"
           "count_list (join_with [d] (take (Suc k) (split_on d cs))) d \<le> k"
           "rest = [] \<or> (hd rest = d \<and> count_list (join_with [d] (take (Suc k) (split_on d cs))) d = k)"
        by blast
      have ne: "take (Suc k) (split_on d cs) \<noteq> []"
        using split_on_not_Nil [of d cs] by (cases "split_on d cs") simp_all
      have e: "take (Suc m) (split_on d (c # cs)) = [] # take (Suc k) (split_on d cs)"
        using True Suc by simp
      have j: "join_with [d] (take (Suc m) (split_on d (c # cs)))
                 = d # join_with [d] (take (Suc k) (split_on d cs))"
        unfolding e using join_with_Cons [OF ne, of "[d]" "[]"] by simp
      show ?thesis
        unfolding j using r True Suc by (intro exI [of _ rest]) auto
    qed
  next
    case False
    obtain t ts where sp: "split_on d cs = t # ts"
      using split_on_not_Nil [of d cs] by (cases "split_on d cs") auto
    from Cons.IH [of m] obtain rest where
      r: "cs = join_with [d] (take (Suc m) (split_on d cs)) @ rest"
         "count_list (join_with [d] (take (Suc m) (split_on d cs))) d \<le> m"
         "rest = [] \<or> (hd rest = d \<and> count_list (join_with [d] (take (Suc m) (split_on d cs))) d = m)"
      by blast
    have j: "join_with [d] (take (Suc m) (split_on d (c # cs)))
               = c # join_with [d] (take (Suc m) (split_on d cs))"
      using False sp by (simp add: join_with_push)
    show ?thesis
      unfolding j using r False by (intro exI [of _ rest]) auto
  qed
qed

lemma separator_splits_once:
  "d \<notin> set a \<Longrightarrow> d \<notin> set b \<Longrightarrow> a @ d # u = b @ d # v \<Longrightarrow> a = b \<and> u = v"
proof (induction a arbitrary: b)
  case Nil
  then show ?case by (cases b) auto
next
  case (Cons x xs)
  then show ?case by (cases b) auto
qed

lemma replicate_numeral_unfold: "replicate (numeral k) x = x # replicate (pred_numeral k) x"
  by (simp add: numeral_eq_Suc)

lemma iso_of_epoch: "iso_of_time 0 = ''1970-01-01T00:00:00.000Z''"
  unfolding iso_of_time_def Let_def
  by (simp add: year_string_def pad_def digit_char_def replicate_numeral_unfold)

lemma iso_of_sample_time: "iso_of_time 1700000000000 = ''2023-11-14T22:13:20.000Z''"
  unfolding iso_of_time_def Let_def
  by (simp add: year_string_def pad_def digit_char_def replicate_numeral_unfold)

lemma iso_of_leap_day: "iso_of_time 951782400000 = ''2000-02-29T00:00:00.000Z''"
  unfolding iso_of_time_def Let_def
  by (simp add: year_string_def pad_def digit_char_def replicate_numeral_unfold)

section \<open>Body wrapping: properties\<close>






section \<open>Slugs: properties\<close>

lemma baseSlug_no_dash: "CHR ''-'' \<notin> set (baseSlug headline)"
  by (simp add: baseSlug_def is_lower_def)

text \<open>
  In \<open>src/app/index.js\<close> two cards with the same headline get the same slug.
\<close>

theorem same_headline_same_slug:
  "collect_index sample_items =
     Inr [new_article ''A B C D'' ''https://www.bbc.com/x'' ''abc'',
          new_article ''A B C D'' ''https://www.bbc.com/y'' ''abc'']"
  by (simp add: sample_items_def item_index_def trim_def is_space_def site_def baseSlug_def
      is_lower_def to_lower_def is_upper_def)

text \<open>
  C1, as amended. In \<open>src/unnamed/part_000\<close> two generated slugs are equal exactly when the
  base slugs of the headlines are equal and the suffixes built from the clock and the random
  draw are equal; so entries with the same headline get distinct slugs whenever their
  suffixes differ. In \<open>src/app/index.js\<close> the slug of an entry is the base slug of its
  headline, without a suffix.
\<close>

theorem generateSlug_eq_iff:
  "(generateSlug h1 l1 t1 r1 = generateSlug h2 l2 t2 r2
      \<longleftrightarrow> baseSlug h1 = baseSlug h2 \<and> uniquePart t1 r1 = uniquePart t2 r2)
   \<and> item_index \<lparr>headline_text = Some t, href = Some h\<rparr>
       = Inr (new_article (trim t) (site @ trim h) (baseSlug (trim t)))"
proof -
  have "baseSlug h1 = baseSlug h2 \<and> uniquePart t1 r1 = uniquePart t2 r2"
    if "baseSlug h1 @ CHR ''-'' # uniquePart t1 r1 = baseSlug h2 @ CHR ''-'' # uniquePart t2 r2"
    by (rule separator_splits_once [OF baseSlug_no_dash baseSlug_no_dash that])
  then show ?thesis
    by (auto simp add: generateSlug_def item_index_def Let_def)
qed

theorem generateSlug_eq_iff_witness:
  "generateSlug ''A B C D'' ''/x'' 1700000000000 ''0.i''
     \<noteq> generateSlug ''A B C D'' ''/y'' 1700000000000 ''0.9''
   \<and> generateSlug ''A B C D'' ''/x'' 1700000000000 ''0.i''
     = generateSlug ''A B C D'' ''/y'' 1700000000000 ''0.i''"
  using generateSlug_eq_iff [of "''A B C D''" "''/x''" 1700000000000 "''0.i''"
      "''A B C D''" "''/y''" 1700000000000 "''0.9''"]
    generateSlug_eq_iff [of "''A B C D''" "''/x''" 1700000000000 "''0.i''"
      "''A B C D''" "''/y''" 1700000000000 "''0.i''"]
  by (simp add: uniquePart_def slice_last_def)

section \<open>Summaries: properties\<close>

text \<open>
  The summary splits at single spaces only: a line break does not end a token. And in
  \<open>src/unnamed/part_000\<close> an empty paragraph list gives the ellipsis alone.
\<close>

theorem summary_not_whitespace_tokens:
  "summary_index [CHR ''a'', CHR 0x0A, CHR ''b''] \<noteq> spec_summary [CHR ''a'', CHR 0x0A, CHR ''b'']
   \<and> summary_alt [] \<noteq> []"
  by (simp add: summary_index_def summary_alt_def first_words_def spec_summary_def truthy_def
      is_space_def)

text \<open>
  C9, as amended. In \<open>src/app/index.js\<close> the summary is a function of the extracted body:
  empty for the empty body, and otherwise the first 25 pieces of the body split at single
  space characters, joined with single spaces and followed by the ellipsis. That text before
  the ellipsis is the body cut before its 25th space, or the whole body when it has fewer
  than 25 spaces. In \<open>src/unnamed/part_000\<close> the summary of paragraphs whose joined text is
  not empty is the same function of that text.
\<close>

theorem summary_index_cut:
  "summary_index [] = []
   \<and> (body \<noteq> [] \<longrightarrow>
        summary_index body = join_with '' '' (take 25 (split_on (CHR '' '') body)) @ ''...''
        \<and> (\<exists>rest. body = join_with '' '' (take 25 (split_on (CHR '' '') body)) @ rest
              \<and> count_list (join_with '' '' (take 25 (split_on (CHR '' '') body))) (CHR '' '') \<le> 24
              \<and> (rest = [] \<or>
                   (hd rest = CHR '' ''
                    \<and> count_list (join_with '' '' (take 25 (split_on (CHR '' '') body))) (CHR '' '') = 24))))
   \<and> (join_with '' '' paragraphs \<noteq> [] \<longrightarrow>
        summary_alt paragraphs = summary_index (join_with '' '' paragraphs))"
proof -
  have "Suc 24 = 25" by simp
  then show ?thesis
    using take_split_prefix [of body "CHR '' ''" 24]
    by (simp add: summary_index_def summary_alt_def first_words_def truthy_def del: take_Suc_Cons)
qed

theorem summary_index_cut_witness:
  "''a  b c'' \<noteq> [] \<and> summary_index ''a  b c'' = ''a  b c...'' \<and> summary_index [] = []
   \<and> join_with '' '' [''a'', ''b''] \<noteq> []
   \<and> summary_alt [''a'', ''b''] = summary_index (join_with '' '' [''a'', ''b''])"
  using summary_index_cut [of "''a  b c''" "[''a'', ''b'']"] by simp

section \<open>Media: properties\<close>

text \<open>
  C5. The claim asks for the secondary media signal on a page that has a video poster and
  no image. On such a page the extractor that the ingestion calls, \<open>extractMainImage\<close>,
  returns the default image, and so does \<open>extractMedia\<close>, which is never called: its
  first \<open>$eval\<close> throws when the primary image is missing, and the \<open>catch\<close> returns the default.
\<close>

theorem media_on_video_only_page:
  "img_src page_video = None \<and> holding_src page_video = None
   \<and> video page_video = Some \<lparr>poster = Some ''https://www.bbc.com/poster.jpg'', thumb = None\<rparr>
   \<and> extractMainImage page_video = default_image
   \<and> extractMedia page_video = default_image
   \<and> art_media (assemble_index sample_parse sample_article page_video) = Some default_image
   \<and> art_media (assemble_alt sample_article page_video) = Some default_image"
  by (simp add: page_video_def extractMainImage_def extractMedia_def page_eval_def catch_def
      assemble_index_def assemble_alt_def Let_def split: prod.splits)

text \<open>
  \<open>extractMedia\<close> reaches the video only when the primary image exists with an empty
  \<open>src\<close>.
\<close>

lemma extractMedia_secondary:
  "holding_src page = Some [] \<Longrightarrow> video page = Some v \<Longrightarrow> poster v = Some p \<Longrightarrow> p \<noteq> [] \<Longrightarrow>
     extractMedia page = p"
  by (simp add: extractMedia_def page_eval_def truthy_def truthy_opt_def)

lemma extractMedia_no_primary: "holding_src page = None \<Longrightarrow> extractMedia page = default_image"
  by (simp add: extractMedia_def page_eval_def)

section \<open>The retry loop: properties\<close>

declare retry_loop.simps [simp del]

lemma attempt_cases:
  "attempt A a page db =
     (if attempt_ok page then (Inr (), A a page, db @ [insert_params (A a page)])
      else (Inl (if goto_ok page then QueryError else NavigationError), after_failure A a page, db))"
  by (simp add: attempt_def attempt_ok_def after_failure_def Let_def)

lemma retry_loop_stop:
  "success \<or> \<not> attempts < maxAttempts \<Longrightarrow>
     retry_loop A P a attempts success db = (a, attempts, success, db)"
  by (subst retry_loop.simps) auto

lemma retry_loop_step:
  "\<not> success \<Longrightarrow> attempts < maxAttempts \<Longrightarrow>
     retry_loop A P a attempts success db =
       (if attempt_ok (P (Suc attempts))
        then (A a (P (Suc attempts)), Suc attempts, True,
              db @ [insert_params (A a (P (Suc attempts)))])
        else retry_loop A P (after_failure A a (P (Suc attempts))) (Suc attempts) False db)"
  by (subst retry_loop.simps) (simp add: attempt_cases retry_loop_stop)




text \<open>The loop from its initial state, written out for the three attempts.\<close>

lemma retry_loop_unrolled:
  "retry_loop A P a 0 False db =
     (if attempt_ok (P 1) then (A a (P 1), 1, True, db @ [insert_params (A a (P 1))])
      else if attempt_ok (P 2)
        then (A (after_failure A a (P 1)) (P 2), 2, True,
              db @ [insert_params (A (after_failure A a (P 1)) (P 2))])
      else if attempt_ok (P 3)
        then (A (after_failure A (after_failure A a (P 1)) (P 2)) (P 3), 3, True,
              db @ [insert_params (A (after_failure A (after_failure A a (P 1)) (P 2)) (P 3))])
      else (after_failure A (after_failure A (after_failure A a (P 1)) (P 2)) (P 3), 3, False, db))"
proof -
  have s2: "Suc (Suc 0) = 2" and s3: "Suc 2 = 3" by simp_all
  have m: "(0::nat) < maxAttempts" "Suc 0 < maxAttempts" "2 < maxAttempts" "\<not> 3 < maxAttempts"
    by (simp_all add: maxAttempts_def)
  show ?thesis
    by (simp add: retry_loop_step [OF _ m(1)] retry_loop_step [OF _ m(2)]
        retry_loop_step [OF _ m(3)] retry_loop_stop m(4) s2 s3)
qed





text \<open>
  An attempt whose navigation and extraction succeed and whose \<open>INSERT\<close> statement fails is
  followed by a second attempt.
\<close>

theorem insert_failure_retried:
  "fst (snd (retry_loop (assemble_index sample_parse) pages_retry sample_article 0 False [])) = 2
   \<and> goto_ok (pages_retry 1) \<and> article_text (pages_retry 1) \<noteq> None
   \<and> byline (pages_retry 1) \<noteq> None \<and> img_src (pages_retry 1) \<noteq> None
   \<and> \<not> insert_ok (pages_retry 1)"
  by (simp add: retry_loop_unrolled pages_retry_def page_insert_fails_def page_full_def attempt_ok_def)

text \<open>
  C7, as amended. The number of attempts and the outcome of the loop are determined by which
  attempts have both the navigation and the \<open>INSERT\<close> statement succeed: the loop stops at
  the first such attempt, and after three attempts otherwise. What the field extractors
  return or throw plays no part; a failed navigation and a failed \<open>INSERT\<close> both cause a
  retry.
\<close>

theorem attempts_depend_on_goto_and_insert:
  "fst (snd (retry_loop A P a 0 False db))
     = (if attempt_ok (P 1) then 1 else if attempt_ok (P 2) then 2 else 3)
   \<and> fst (snd (snd (retry_loop A P a 0 False db)))
     = (attempt_ok (P 1) \<or> attempt_ok (P 2) \<or> attempt_ok (P 3))"
  by (simp add: retry_loop_unrolled)

theorem attempts_depend_on_goto_and_insert_witness:
  "fst (snd (retry_loop (assemble_index sample_parse) (\<lambda>k. page_bare) sample_article 0 False [])) = 1
   \<and> fst (snd (snd (retry_loop (assemble_index sample_parse) (\<lambda>k. page_bare) sample_article 0 False [])))"
  using attempts_depend_on_goto_and_insert [of "assemble_index sample_parse" "\<lambda>k. page_bare"
      sample_article "[]"]
  by (simp add: page_bare_def attempt_ok_def)

section \<open>Record fields: properties\<close>

text \<open>
  In \<open>src/app/index.js\<close>, when the body locator fails the stored body is the wrapping of the
  empty string, not the empty string.
\<close>

theorem body_default_not_empty:
  "article_text page_bare = None
   \<and> map col_body (snd (snd (attempt (assemble_index sample_parse) sample_article page_bare [])))
       = [Some (''<p></p>'' @ visit_block ''https://www.bbc.com/x'' BBC_News
                 @ visit_block ''https://www.bbc.com/x'' BBC_News)]
   \<and> map col_body (snd (snd (attempt (assemble_index sample_parse) sample_article page_bare [])))
       \<noteq> [Some []]"
  by (simp add: attempt_def assemble_index_def insert_params_def or_empty_def Let_def
      page_bare_def page_eval_def catch_def sample_article_def new_article_def
      processBody_def truthy_def truthy_opt_def visit_block_def)

text \<open>
  C2, as amended. An attempt whose navigation and \<open>INSERT\<close> succeed appends one row, and no
  column of that row is \<open>NULL\<close>. Headline, link and slug are the entry's, the resource is the
  fixed tag and the id is the fresh identifier. The author is the byline or the fixed
  fallback string of the file, the media is the first image or the placeholder, the summary
  is empty when the body locator fails. In \<open>src/app/index.js\<close> the date is the empty string
  when there is no \<open>time\<close> element, and the body is the wrapping of the extracted text, of
  the empty string when the locator fails. In \<open>src/unnamed/part_000\<close> the date is the clock
  reading and the body is empty when the paragraph locator throws.
\<close>

theorem inserted_row_complete:
  assumes "attempt_ok page"
  shows "(\<exists>r. snd (snd (attempt (assemble_index D) a page db)) = db @ [r] \<and> complete r
            \<and> col_headline r = Some (art_headline a) \<and> col_link r = Some (art_link a)
            \<and> col_slug r = Some (art_slug a) \<and> col_resource r = Some BBC_News
            \<and> col_id r = Some (cuid page)
            \<and> col_author r = Some (case byline page of None \<Rightarrow> ''See article for details'' | Some s \<Rightarrow> s)
            \<and> col_media r = Some (case img_src page of None \<Rightarrow> default_image | Some s \<Rightarrow> s)
            \<and> col_date r = Some (case time_el page of
                                   NoTimeElement \<Rightarrow> []
                                 | TimeElement rawDate \<Rightarrow> catch (toISOString (new_Date D rawDate)) [])
            \<and> col_summary r = Some (case article_text page of None \<Rightarrow> [] | Some t \<Rightarrow> summary_index t)
            \<and> col_body r = Some (processBody
                                  (Some (case article_text page of None \<Rightarrow> [] | Some t \<Rightarrow> t))
                                  (art_link a) BBC_News))
       \<and> (\<exists>r. snd (snd (attempt assemble_alt a page db)) = db @ [r] \<and> complete r
            \<and> col_headline r = Some (art_headline a) \<and> col_link r = Some (art_link a)
            \<and> col_slug r = Some (art_slug a) \<and> col_resource r = Some BBC_News
            \<and> col_id r = Some (cuid page)
            \<and> col_author r = Some (case byline page of None \<Rightarrow> ''See article for deatails'' | Some s \<Rightarrow> s)
            \<and> col_media r = Some (case img_src page of None \<Rightarrow> default_image | Some s \<Rightarrow> s)
            \<and> col_date r = Some (iso_of_time (clock page))
            \<and> col_summary r = Some (case text_blocks page of None \<Rightarrow> [] | Some ps \<Rightarrow> summary_alt ps)
            \<and> col_body r = Some (case text_blocks page of
                                   None \<Rightarrow> []
                                 | Some ps \<Rightarrow> processBody_alt ps (art_link a) BBC_News))"
proof -
  have or_empty_Some: "or_empty (Some s) = Some s" for s
    by (simp add: or_empty_def truthy_opt_def truthy_def)
  have summary_Nil: "summary_index [] = []"
    by (simp add: summary_index_def truthy_def)
  have 1: "\<exists>r. snd (snd (attempt (assemble_index D) a page db)) = db @ [r] \<and> complete r
            \<and> col_headline r = Some (art_headline a) \<and> col_link r = Some (art_link a)
            \<and> col_slug r = Some (art_slug a) \<and> col_resource r = Some BBC_News
            \<and> col_id r = Some (cuid page)
            \<and> col_author r = Some (case byline page of None \<Rightarrow> ''See article for details'' | Some s \<Rightarrow> s)
            \<and> col_media r = Some (case img_src page of None \<Rightarrow> default_image | Some s \<Rightarrow> s)
            \<and> col_date r = Some (case time_el page of
                                   NoTimeElement \<Rightarrow> []
                                 | TimeElement rawDate \<Rightarrow> catch (toISOString (new_Date D rawDate)) [])
            \<and> col_summary r = Some (case article_text page of None \<Rightarrow> [] | Some t \<Rightarrow> summary_index t)
            \<and> col_body r = Some (processBody
                                  (Some (case article_text page of None \<Rightarrow> [] | Some t \<Rightarrow> t))
                                  (art_link a) BBC_News)"
    using assms
    by (simp add: attempt_cases insert_params_def assemble_index_def complete_def or_empty_Some
        summary_Nil extractMainImage_def extract_date_def page_eval_def catch_def Let_def
        split: option.splits time_query.splits)
  have 2: "\<exists>r. snd (snd (attempt assemble_alt a page db)) = db @ [r] \<and> complete r
            \<and> col_headline r = Some (art_headline a) \<and> col_link r = Some (art_link a)
            \<and> col_slug r = Some (art_slug a) \<and> col_resource r = Some BBC_News
            \<and> col_id r = Some (cuid page)
            \<and> col_author r = Some (case byline page of None \<Rightarrow> ''See article for deatails'' | Some s \<Rightarrow> s)
            \<and> col_media r = Some (case img_src page of None \<Rightarrow> default_image | Some s \<Rightarrow> s)
            \<and> col_date r = Some (iso_of_time (clock page))
            \<and> col_summary r = Some (case text_blocks page of None \<Rightarrow> [] | Some ps \<Rightarrow> summary_alt ps)
            \<and> col_body r = Some (case text_blocks page of
                                   None \<Rightarrow> []
                                 | Some ps \<Rightarrow> processBody_alt ps (art_link a) BBC_News)"
    using assms
    by (simp add: attempt_cases insert_params_def assemble_alt_def complete_def or_empty_Some
        extractMainImage_def page_eval_def catch_def Let_def
        split: option.splits prod.splits)
  show ?thesis using 1 2 by (rule conjI)
qed

theorem inserted_row_complete_witness:
  "attempt_ok page_bare
   \<and> (\<exists>r. snd (snd (attempt (assemble_index sample_parse) sample_article page_bare [])) = [r]
          \<and> complete r \<and> col_author r = Some ''See article for details''
          \<and> col_media r = Some default_image \<and> col_date r = Some [] \<and> col_summary r = Some [])
   \<and> (\<exists>r. snd (snd (attempt assemble_alt sample_article page_bare [])) = [r]
          \<and> complete r \<and> col_author r = Some ''See article for deatails''
          \<and> col_media r = Some default_image \<and> col_body r = Some [] \<and> col_summary r = Some [])"
proof -
  have h: "attempt_ok page_bare"
    by (simp add: attempt_ok_def page_bare_def)
  have q: "byline page_bare = None" "img_src page_bare = None" "time_el page_bare = NoTimeElement"
    "article_text page_bare = None" "text_blocks page_bare = None"
    by (simp_all add: page_bare_def)
  show ?thesis
    using h inserted_row_complete [OF h, of sample_parse sample_article "[]"]
    by (simp add: q summary_index_def truthy_def) blast
qed

section \<open>Dates: properties\<close>

text \<open>
  In \<open>src/unnamed/part_000\<close> the stored date of a page without any \<open>time\<close> element is the
  clock reading of the attempt.
\<close>

theorem date_is_clock_reading:
  "time_el page_bare = NoTimeElement
   \<and> map col_date (snd (snd (attempt assemble_alt sample_article page_bare [])))
       = [Some ''2023-11-14T22:13:20.000Z'']"
  by (simp add: attempt_def assemble_alt_def insert_params_def Let_def iso_of_sample_time
      page_bare_def split: prod.splits)

text \<open>
  C6, as amended. In \<open>src/app/index.js\<close> the date is the empty string when the page has no
  \<open>time\<close> element; when the element has a \<open>datetime\<close> attribute, the date is the ISO form of
  the time value the attribute parses to, and the empty string when it does not parse. In
  \<open>src/unnamed/part_000\<close> the date is the ISO form of the clock reading of the attempt.
\<close>

theorem date_field_sources:
  "(time_el page = NoTimeElement \<longrightarrow> art_date (assemble_index D a page) = Some [])
   \<and> (time_el page = TimeElement (Some s) \<longrightarrow>
        art_date (assemble_index D a page)
          = Some (case D s of None \<Rightarrow> [] | Some t \<Rightarrow> iso_of_time t))
   \<and> art_date (assemble_alt a page) = Some (iso_of_time (clock page))"
  by (simp add: assemble_index_def assemble_alt_def extract_date_def new_Date_def toISOString_def
      catch_def Let_def split: prod.splits option.splits)

theorem date_field_sources_witness:
  "time_el page_bare = NoTimeElement
   \<and> art_date (assemble_index sample_parse sample_article page_bare) = Some []
   \<and> time_el page_full = TimeElement (Some ''2023-11-14T22:13:20.000Z'')
   \<and> art_date (assemble_index sample_parse sample_article page_full)
       = Some ''2023-11-14T22:13:20.000Z''
   \<and> art_date (assemble_alt sample_article page_full) = Some ''2023-11-14T22:13:20.000Z''"
proof -
  have b: "time_el page_bare = NoTimeElement"
    by (simp add: page_bare_def)
  have f: "time_el page_full = TimeElement (Some ''2023-11-14T22:13:20.000Z'')"
    and c: "clock page_full = 1700000000000"
    by (simp_all add: page_full_def)
  show ?thesis
    using b f
      date_field_sources [where page = page_bare and D = sample_parse and a = sample_article]
      date_field_sources [where page = page_full and D = sample_parse and a = sample_article
        and s = "''2023-11-14T22:13:20.000Z''"]
    by (simp add: sample_parse_def iso_of_sample_time c)
qed

text \<open>
  A \<open>time\<close> element without a \<open>datetime\<close> attribute gives the epoch: \<open>new Date(null)\<close> is a
  valid date.
\<close>

lemma date_of_missing_attribute:
  "extract_date D (TimeElement None) = ''1970-01-01T00:00:00.000Z''"
  by (simp add: extract_date_def new_Date_def toISOString_def catch_def iso_of_epoch)

section \<open>The job: properties\<close>

lemma sweep_Nil: "sweep [] = []"
  by (simp add: sweep_def)
















text \<open>
  The sample run inserts one row: the first entry never loads and is skipped, the second is
  stored.
\<close>

lemma sample_job_index_links:
  "map col_link (fst (job_index sample_env [])) = [Some ''https://www.bbc.com/y'']"
  by (simp add: job_index_def sample_env_def sweep_Nil sample_items_def item_index_def trim_def
      is_space_def site_def Let_def retry_loop_unrolled pages_first_down_def attempt_ok_def
      page_down_def page_full_def insert_params_def new_article_def assemble_index_def)

end
